theory Spec2Isabelle
  imports Complex_Main
begin

section \<open>Python values used by the controller\<close>

text \<open>
  The controller (\<^verbatim>\<open>src/generic_autoscaler/controller.py\<close>) computes with Python
  \<^verbatim>\<open>int\<close> (unbounded, modelled as \<^typ>\<open>int\<close>) and Python \<^verbatim>\<open>float\<close>. Floats are
  modelled as \<^typ>\<open>real\<close>: every arithmetic operation is exact, there is no rounding,
  no infinity and no NaN. Wall-clock readings of \<^verbatim>\<open>time.time()\<close> are passed in as
  \<^typ>\<open>real\<close> arguments. Exceptions are values of the type \<open>error\<close>.
\<close>

datatype error =
    ZeroDivisionError
  | IndexError
  | SyntaxError
  | ApiException nat
  | OtherException

text \<open>\<^verbatim>\<open>int(x)\<close> on a float truncates toward zero.\<close>

definition py_int :: "real \<Rightarrow> int" where
  "py_int x = (if 0 \<le> x then \<lfloor>x\<rfloor> else \<lceil>x\<rceil>)"

section \<open>Configuration dictionaries\<close>

text \<open>
  A configuration dictionary is a record whose fields are the keys the code reads; a field
  is \<open>None\<close> when the key is absent, and every read goes through the default that the
  code passes to \<^verbatim>\<open>dict.get\<close>.
\<close>

record policy_config =
  policy_type :: "string option"
  sloTarget :: "real option"
  maxCostPerReplica :: "real option"

record metric_config =
  plugin :: "string option"
  query :: "string option"

record safety_config =
  maxScaleRate :: "int option"
  scaleUpCooldown :: "string option"
  scaleDownCooldown :: "string option"

record scaler_config =
  targetRef_name :: "string option"
  minReplicas :: "int option"
  maxReplicas :: "int option"
  metrics :: "metric_config list"
  policy :: policy_config
  safety :: safety_config

definition dict_get :: "'a option \<Rightarrow> 'a \<Rightarrow> 'a" where
  "dict_get field dflt = (case field of None \<Rightarrow> dflt | Some v \<Rightarrow> v)"

section \<open>PolicyEngine\<close>

text \<open>\<^verbatim>\<open>sum(metrics) / len(metrics) if metrics else 0\<close> (lines 68 and 86).\<close>

definition current_metric :: "real list \<Rightarrow> real" where
  "current_metric ms = (if ms \<noteq> [] then sum_list ms / real (length ms) else 0)"

text \<open>\<^verbatim>\<open>_slo_based_scaling\<close>, lines 64 to 80. No statement of it can raise.\<close>

definition slo_based_scaling ::
  "int \<Rightarrow> real list \<Rightarrow> policy_config \<Rightarrow> scaler_config \<Rightarrow> int" where
  "slo_based_scaling current_replicas ms policy_cfg scaler_cfg =
     (let target = dict_get (sloTarget policy_cfg) 80;
          ratio = (if target > 0 then current_metric ms / target else 1);
          desired = py_int (real_of_int current_replicas * ratio);
          min_replicas = dict_get (minReplicas scaler_cfg) 1;
          max_replicas = dict_get (maxReplicas scaler_cfg) 10
      in max min_replicas (min max_replicas desired))"

text \<open>
  \<^verbatim>\<open>_cost_aware_scaling\<close>, lines 82 to 109. The scale-up branch (lines 92 to 100) holds
  the statement \<^verbatim>\<open>if (current_metric / max_cost) > desired_by_ratio\<close> with no colon, which
  is not a Python statement: the interpreter rejects the file with a \<^verbatim>\<open>SyntaxError\<close>
  and the branch never yields a value. The model gives that branch the error and follows
  the text of the other two branches. The division on line 103 raises when
  \<^verbatim>\<open>max_cost * 0.8\<close> is zero.
\<close>

definition cost_aware_scaling ::
  "int \<Rightarrow> real list \<Rightarrow> policy_config \<Rightarrow> scaler_config \<Rightarrow> error + int" where
  "cost_aware_scaling current_replicas ms policy_cfg scaler_cfg =
     (let max_cost = dict_get (maxCostPerReplica policy_cfg) 5;
          cost_per_replica =
            (if current_replicas > 0 then current_metric ms / real_of_int current_replicas else 0)
      in if cost_per_replica > max_cost then Inl SyntaxError
         else if cost_per_replica < max_cost * (5 / 10) then
           (if max_cost * (8 / 10) = 0 then Inl ZeroDivisionError
            else Inr (max (py_int (current_metric ms / (max_cost * (8 / 10))))
                          (dict_get (minReplicas scaler_cfg) 1)))
         else Inr current_replicas)"

text \<open>
  The scale-up branch with the colon restored on line 93, that is, lines 92 to 100 read as
  \<^verbatim>\<open>if (current_metric / max_cost) > desired_by_ratio: desired_by_ratio += 1\<close>. It is not
  what the file contains; it is kept beside the model to state what the repaired branch
  would compute.
\<close>

definition cost_scale_up_with_colon :: "real \<Rightarrow> real \<Rightarrow> int \<Rightarrow> error + int" where
  "cost_scale_up_with_colon metric max_cost max_replicas =
     (if max_cost = 0 then Inl ZeroDivisionError
      else let desired_by_ratio = py_int (metric / max_cost);
               desired_by_ratio' =
                 (if metric / max_cost > real_of_int desired_by_ratio
                  then desired_by_ratio + 1 else desired_by_ratio)
           in Inr (min desired_by_ratio' max_replicas))"

text \<open>\<^verbatim>\<open>calculate_desired_replicas\<close>, lines 46 to 62.\<close>

definition calculate_desired_replicas ::
  "int \<Rightarrow> real list \<Rightarrow> policy_config \<Rightarrow> scaler_config \<Rightarrow> error + int" where
  "calculate_desired_replicas current_replicas ms policy_cfg scaler_cfg =
     (let ptype = dict_get (policy_type policy_cfg) ''slo''
      in if ptype = ''slo'' then Inr (slo_based_scaling current_replicas ms policy_cfg scaler_cfg)
         else if ptype = ''cost'' then cost_aware_scaling current_replicas ms policy_cfg scaler_cfg
         else Inr current_replicas)"

section \<open>SafetyManager\<close>

subsection \<open>Reading an integer from a string\<close>

text \<open>
  \<^verbatim>\<open>int(s)\<close> on a string, for strings of code points below 256: whitespace is stripped
  on both sides, one sign may follow, then decimal digits, where single underscores may
  stand between digits. Anything else raises \<^verbatim>\<open>ValueError\<close>, which is \<open>None\<close> here. The
  interpreter's configurable limit on the number of digits is not modelled.
\<close>

definition is_space :: "char \<Rightarrow> bool" where
  "is_space c \<longleftrightarrow> (of_char c :: nat) \<in> {9, 10, 11, 12, 13, 32, 133, 160}"

definition is_digit :: "char \<Rightarrow> bool" where
  "is_digit c \<longleftrightarrow> 48 \<le> (of_char c :: nat) \<and> (of_char c :: nat) \<le> 57"

definition digit_value :: "char \<Rightarrow> nat" where
  "digit_value c = of_char c - 48"

definition strip :: "string \<Rightarrow> string" where
  "strip s = rev (dropWhile is_space (rev (dropWhile is_space s)))"

fun digits_ok :: "string \<Rightarrow> bool" where
  "digits_ok [] = False"
| "digits_ok [c] = is_digit c"
| "digits_ok (c # d # r) =
     (is_digit c \<and> (if d = CHR ''_'' then digits_ok r else digits_ok (d # r)))"

definition dec_value :: "string \<Rightarrow> nat" where
  "dec_value s = foldl (\<lambda>a c. 10 * a + digit_value c) 0 (filter is_digit s)"

definition py_int_str :: "string \<Rightarrow> int option" where
  "py_int_str s =
     (case strip s of
        [] \<Rightarrow> None
      | c # r \<Rightarrow>
          if c = CHR ''-'' then (if digits_ok r then Some (- int (dec_value r)) else None)
          else if c = CHR ''+'' then (if digits_ok r then Some (int (dec_value r)) else None)
          else (if digits_ok (c # r) then Some (int (dec_value (c # r))) else None))"

subsection \<open>Durations\<close>

text \<open>The dictionary \<^verbatim>\<open>units\<close> of line 163.\<close>

definition units :: "char \<rightharpoonup> int" where
  "units = [CHR ''s'' \<mapsto> 1, CHR ''m'' \<mapsto> 60, CHR ''h'' \<mapsto> 3600, CHR ''d'' \<mapsto> 86400]"

text \<open>
  \<^verbatim>\<open>_parse_duration\<close>, lines 161 to 170. \<^verbatim>\<open>duration_str[-1]\<close> stands before the
  \<^verbatim>\<open>try\<close> and raises \<^verbatim>\<open>IndexError\<close> on the empty string; \<^verbatim>\<open>duration_str[:-1]\<close> is
  the string without its last character.
\<close>

definition parse_duration :: "string \<Rightarrow> error + int" where
  "parse_duration duration_str =
     (if duration_str = [] then Inl IndexError
      else let unit = last duration_str
           in case py_int_str (butlast duration_str) of
                Some v \<Rightarrow> Inr (v * dict_get (units unit) 1)
              | None \<Rightarrow> Inr 300)"

subsection \<open>Cooldown ledger and rate limit\<close>

record safety_manager =
  last_scale_operations :: "string \<rightharpoonup> real"

text \<open>
  The reconciler passes \<^verbatim>\<open>'up'\<close> or \<^verbatim>\<open>'down'\<close> as the direction (line 279);
  \<^verbatim>\<open>direction.capitalize()\<close> turns them into \<^verbatim>\<open>'Up'\<close> and \<^verbatim>\<open>'Down'\<close>.
\<close>

datatype direction = Up | Down

definition capitalize :: "direction \<Rightarrow> string" where
  "capitalize d = (case d of Up \<Rightarrow> ''Up'' | Down \<Rightarrow> ''Down'')"

definition cooldown_key :: "direction \<Rightarrow> string" where
  "cooldown_key d = ''scale'' @ capitalize d @ ''Cooldown''"

text \<open>Reading a string-valued key of the safety dictionary.\<close>

definition safety_get :: "safety_config \<Rightarrow> string \<Rightarrow> string option" where
  "safety_get cfg key =
     (if key = ''scaleUpCooldown'' then scaleUpCooldown cfg
      else if key = ''scaleDownCooldown'' then scaleDownCooldown cfg
      else None)"

text \<open>\<^verbatim>\<open>can_scale\<close>, lines 117 to 133; \<open>now\<close> is the reading of \<^verbatim>\<open>time.time()\<close> on line 125.\<close>

definition can_scale ::
  "safety_manager \<Rightarrow> real \<Rightarrow> string \<Rightarrow> safety_config \<Rightarrow> direction \<Rightarrow> error + bool" where
  "can_scale sm now scaler_name cfg d =
     (case parse_duration (dict_get (safety_get cfg (cooldown_key d)) ''5m'') of
        Inl e \<Rightarrow> Inl e
      | Inr cooldown_seconds \<Rightarrow>
          (let last_scale = dict_get (last_scale_operations sm scaler_name) 0;
               time_since_last = now - last_scale
           in if time_since_last < real_of_int cooldown_seconds then Inr False else Inr True))"

text \<open>\<^verbatim>\<open>apply_rate_limits\<close>, lines 135 to 154.\<close>

definition apply_rate_limits :: "int \<Rightarrow> int \<Rightarrow> safety_config \<Rightarrow> int" where
  "apply_rate_limits current desired cfg =
     (let max_rate = dict_get (maxScaleRate cfg) 2
      in if desired > current then min (current + max_rate) desired
         else if desired < current then max (current - max_rate) desired
         else desired)"

text \<open>\<^verbatim>\<open>record_scale_operation\<close>, lines 156 to 159; \<open>now\<close> is the reading on line 158.\<close>

definition record_scale_operation :: "safety_manager \<Rightarrow> string \<Rightarrow> real \<Rightarrow> safety_manager" where
  "record_scale_operation sm scaler_name now =
     sm\<lparr>last_scale_operations := (last_scale_operations sm)(scaler_name \<mapsto> now)\<rparr>"

section \<open>Metric plugins\<close>

text \<open>\<^verbatim>\<open>sub in s\<close> on strings: \<open>sub\<close> occurs in \<open>s\<close> as a contiguous run.\<close>

fun str_in :: "string \<Rightarrow> string \<Rightarrow> bool" where
  "str_in sub [] = (sub = [])"
| "str_in sub (c # cs) = (take (length sub) (c # cs) = sub \<or> str_in sub cs)"

text \<open>\<^verbatim>\<open>PrometheusPlugin.get_metric\<close>, lines 21 to 32, and \<^verbatim>\<open>RedisPlugin.get_metric\<close>,
  lines 36 to 41.\<close>

definition prometheus_get_metric :: "metric_config \<Rightarrow> real" where
  "prometheus_get_metric cfg =
     (let q = dict_get (query cfg) ''''
      in if str_in ''cpu'' q then 75
         else if str_in ''memory'' q then 65
         else if str_in ''http_request'' q then 150
         else 50)"

definition redis_get_metric :: "metric_config \<Rightarrow> real" where
  "redis_get_metric cfg = 10"

text \<open>
  \<^verbatim>\<open>_collect_metrics\<close>, lines 312 to 327, with the registry of line 189: a metric whose
  plugin name is not registered is skipped with a warning.
\<close>

fun collect_metrics :: "metric_config list \<Rightarrow> real list" where
  "collect_metrics [] = []"
| "collect_metrics (mc # rest) =
     (if plugin mc = Some ''prometheus'' then prometheus_get_metric mc # collect_metrics rest
      else if plugin mc = Some ''redis'' then redis_get_metric mc # collect_metrics rest
      else collect_metrics rest)"

section \<open>Reconciler\<close>

text \<open>
  A scaler object as the controller reads it: \<^verbatim>\<open>metadata.name\<close>,
  \<^verbatim>\<open>metadata.namespace\<close> and \<^verbatim>\<open>spec\<close>. A deployment as the orchestrator returns it.
\<close>

record scaler =
  meta_name :: string
  meta_namespace :: "string option"
  spec :: scaler_config

record deployment =
  dep_name :: string
  dep_uid :: string
  spec_replicas :: "int option"

text \<open>
  The orchestrator, as far as one reconcile sees it: the answer to reading a deployment
  (by name and namespace), and the answer to a patch of its replica count, where \<open>None\<close>
  means that the call returned and \<open>Some e\<close> that it raised \<open>e\<close>. The answer to a
  status patch has no part in the control flow and is left out.
\<close>

record cluster =
  read_namespaced_deployment :: "string \<Rightarrow> string \<Rightarrow> error + deployment"
  patch_namespaced_deployment :: "string \<Rightarrow> string \<Rightarrow> int \<Rightarrow> error option"

text \<open>The calls a reconcile issues that change the orchestrator, in order.\<close>

datatype api_call =
    PatchDeployment string string int
  | PatchStatus string string int string

text \<open>\<^verbatim>\<open>deployment.spec.replicas or 1\<close>, line 255.\<close>

definition current_replicas_of :: "deployment \<Rightarrow> int" where
  "current_replicas_of dep =
     (case spec_replicas dep of None \<Rightarrow> 1 | Some n \<Rightarrow> if n = 0 then 1 else n)"

text \<open>
  \<^verbatim>\<open>_reconcile_scaler\<close> from line 258 on, once the deployment is read and
  \<^verbatim>\<open>current_replicas\<close> is bound. \<open>now_check\<close> is the clock reading inside
  \<^verbatim>\<open>can_scale\<close> and \<open>now_record\<close> the one inside \<^verbatim>\<open>record_scale_operation\<close>. Any
  exception raised on the way is caught by the handlers of lines 304 to 310, which only
  log: the function then returns with what was done so far. A failing status patch is
  swallowed inside \<^verbatim>\<open>_update_scaler_status\<close>.
\<close>

definition reconcile_from_current ::
  "cluster \<Rightarrow> real \<Rightarrow> real \<Rightarrow> safety_manager \<Rightarrow> scaler \<Rightarrow> deployment \<Rightarrow> int
     \<Rightarrow> safety_manager \<times> api_call list" where
  "reconcile_from_current cl now_check now_record sm sc dep current_replicas =
     (let scaler_name = meta_name sc;
          namespace = dict_get (meta_namespace sc) ''default'';
          ms = collect_metrics (metrics (spec sc))
      in if ms = [] then (sm, [])
         else
          (case calculate_desired_replicas current_replicas ms (policy (spec sc)) (spec sc) of
             Inl e \<Rightarrow> (sm, [])
           | Inr desired_replicas \<Rightarrow>
              (if desired_replicas = current_replicas
               then (sm, [PatchStatus scaler_name namespace current_replicas ''ScalingApplied''])
               else
                (let direction = (if desired_replicas > current_replicas then Up else Down);
                     safety_config = safety (spec sc)
                 in (case can_scale sm now_check scaler_name safety_config direction of
                       Inl e \<Rightarrow> (sm, [])
                     | Inr allowed \<Rightarrow>
                        (if \<not> allowed
                         then (sm, [PatchStatus scaler_name namespace current_replicas
                                      ''CooldownActive''])
                         else
                          (let limited_replicas =
                                 apply_rate_limits current_replicas desired_replicas safety_config
                           in if limited_replicas \<noteq> current_replicas
                              then
                               (case patch_namespaced_deployment cl (dep_name dep) namespace
                                       limited_replicas of
                                  Some e \<Rightarrow>
                                    (sm, [PatchDeployment (dep_name dep) namespace
                                            limited_replicas])
                                | None \<Rightarrow>
                                    (record_scale_operation sm scaler_name now_record,
                                     [PatchDeployment (dep_name dep) namespace limited_replicas,
                                      PatchStatus scaler_name namespace limited_replicas
                                        ''ScalingApplied'']))
                              else (sm, [PatchStatus scaler_name namespace limited_replicas
                                           ''ScalingApplied'']))))))))"

text \<open>
  \<^verbatim>\<open>_reconcile_scaler\<close>, lines 231 to 310: a missing or empty \<^verbatim>\<open>targetRef.name\<close> and a
  failing read of the deployment end the invocation with nothing done.
\<close>

definition reconcile_scaler ::
  "cluster \<Rightarrow> real \<Rightarrow> real \<Rightarrow> safety_manager \<Rightarrow> scaler \<Rightarrow> safety_manager \<times> api_call list" where
  "reconcile_scaler cl now_check now_record sm sc =
     (let namespace = dict_get (meta_namespace sc) ''default''
      in (case targetRef_name (spec sc) of
            None \<Rightarrow> (sm, [])
          | Some target_name \<Rightarrow>
             (if target_name = [] then (sm, [])
              else (case read_namespaced_deployment cl target_name namespace of
                      Inl e \<Rightarrow> (sm, [])
                    | Inr dep \<Rightarrow>
                        reconcile_from_current cl now_check now_record sm sc dep
                          (current_replicas_of dep)))))"

text \<open>
  A run of reconcile invocations, one after the other on the same safety manager; each
  invocation comes with the orchestrator's answers and the two clock readings it meets.
\<close>

record invocation =
  inv_cluster :: cluster
  inv_now_check :: real
  inv_now_record :: real
  inv_scaler :: scaler

definition reconcile_invocation :: "safety_manager \<Rightarrow> invocation \<Rightarrow> safety_manager \<times> api_call list" where
  "reconcile_invocation sm i =
     reconcile_scaler (inv_cluster i) (inv_now_check i) (inv_now_record i) sm (inv_scaler i)"

fun run_invocations :: "safety_manager \<Rightarrow> invocation list \<Rightarrow> safety_manager" where
  "run_invocations sm [] = sm"
| "run_invocations sm (i # rest) = run_invocations (fst (reconcile_invocation sm i)) rest"

text \<open>Whether a list of calls holds a replica patch, and one that the orchestrator accepted.\<close>

fun is_patch :: "api_call \<Rightarrow> bool" where
  "is_patch (PatchDeployment n ns k) = True"
| "is_patch (PatchStatus n ns k r) = False"

fun patch_accepted :: "cluster \<Rightarrow> api_call \<Rightarrow> bool" where
  "patch_accepted cl (PatchDeployment n ns k) = (patch_namespaced_deployment cl n ns k = None)"
| "patch_accepted cl (PatchStatus n ns k r) = False"

definition patch_issued :: "api_call list \<Rightarrow> bool" where
  "patch_issued calls = list_ex is_patch calls"

definition patch_succeeded :: "cluster \<Rightarrow> api_call list \<Rightarrow> bool" where
  "patch_succeeded cl calls = list_ex (patch_accepted cl) calls"

text \<open>
  The direction in which the policy of an invocation asks to scale (line 279), when the
  invocation gets that far, and the parsed cooldown that the scaler configures for a
  direction.
\<close>

definition attempted_direction :: "cluster \<Rightarrow> scaler \<Rightarrow> direction option" where
  "attempted_direction cl sc =
     (case targetRef_name (spec sc) of
        None \<Rightarrow> None
      | Some target_name \<Rightarrow>
         (if target_name = [] then None
          else (case read_namespaced_deployment cl target_name
                       (dict_get (meta_namespace sc) ''default'') of
                  Inl e \<Rightarrow> None
                | Inr dep \<Rightarrow>
                   (let ms = collect_metrics (metrics (spec sc))
                    in if ms = [] then None
                       else (case calculate_desired_replicas (current_replicas_of dep) ms
                                    (policy (spec sc)) (spec sc) of
                               Inl e \<Rightarrow> None
                             | Inr desired \<Rightarrow>
                                (if desired = current_replicas_of dep then None
                                 else Some (if desired > current_replicas_of dep
                                            then Up else Down)))))))"

definition cooldown_of :: "scaler \<Rightarrow> direction \<Rightarrow> error + int" where
  "cooldown_of sc d =
     parse_duration (dict_get (case d of Up \<Rightarrow> scaleUpCooldown (safety (spec sc))
                                 | Down \<Rightarrow> scaleDownCooldown (safety (spec sc))) ''5m'')"

section \<open>Fixtures of the unit tests and notions of the specification\<close>

text \<open>The dictionaries built by \<^verbatim>\<open>setUp\<close> in \<^verbatim>\<open>tests/unit/test_policy_safety.py\<close>.\<close>

definition empty_policy :: policy_config where
  "empty_policy = \<lparr>policy_type = None, sloTarget = None, maxCostPerReplica = None\<rparr>"

definition empty_safety :: safety_config where
  "empty_safety = \<lparr>maxScaleRate = None, scaleUpCooldown = None, scaleDownCooldown = None\<rparr>"

definition test_policy_config :: policy_config where
  "test_policy_config =
     \<lparr>policy_type = Some ''cost'', sloTarget = None, maxCostPerReplica = Some 5\<rparr>"

definition test_scaler_config :: scaler_config where
  "test_scaler_config =
     \<lparr>targetRef_name = None, minReplicas = Some 1, maxReplicas = Some 10,
      metrics = [], policy = empty_policy, safety = empty_safety\<rparr>"

definition test_safety_config :: safety_config where
  "test_safety_config =
     \<lparr>maxScaleRate = Some 2, scaleUpCooldown = Some ''30s'', scaleDownCooldown = Some ''5m''\<rparr>"

text \<open>An SLO policy with the default target written out, for concrete instances.\<close>

definition example_slo_policy :: policy_config where
  "example_slo_policy =
     \<lparr>policy_type = Some ''slo'', sloTarget = Some 80, maxCostPerReplica = None\<rparr>"







text \<open>Concrete scalers and orchestrators for instances of the reconciler.\<close>

definition example_spec :: scaler_config where
  "example_spec =
     \<lparr>targetRef_name = Some ''web'', minReplicas = Some 1, maxReplicas = Some 10,
      metrics = [\<lparr>plugin = Some ''prometheus'', query = Some ''cpu_usage''\<rparr>],
      policy = example_slo_policy, safety = test_safety_config\<rparr>"

definition example_scaler :: scaler where
  "example_scaler = \<lparr>meta_name = ''test-scaler'', meta_namespace = None, spec = example_spec\<rparr>"


definition example_deployment :: "int option \<Rightarrow> deployment" where
  "example_deployment r = \<lparr>dep_name = ''web'', dep_uid = ''uid-1'', spec_replicas = r\<rparr>"

definition example_cluster :: "int option \<Rightarrow> error option \<Rightarrow> cluster" where
  "example_cluster r answer =
     \<lparr>read_namespaced_deployment = (\<lambda>n ns. Inr (example_deployment r)),
      patch_namespaced_deployment = (\<lambda>n ns k. answer)\<rparr>"

definition empty_manager :: safety_manager where
  "empty_manager = \<lparr>last_scale_operations = Map.empty\<rparr>"

text \<open>
  Three invocations for the same scaler: one that scales down at time 1000, one inside the
  cooldown at time 1100, and one after the cooldown at time 2000.
\<close>

definition first_invocation :: invocation where
  "first_invocation =
     \<lparr>inv_cluster = example_cluster (Some 5) None, inv_now_check = 1000,
      inv_now_record = 1001, inv_scaler = example_scaler\<rparr>"

definition blocked_invocation :: invocation where
  "blocked_invocation =
     \<lparr>inv_cluster = example_cluster (Some 4) None, inv_now_check = 1100,
      inv_now_record = 1101, inv_scaler = example_scaler\<rparr>"

definition later_invocation :: invocation where
  "later_invocation =
     \<lparr>inv_cluster = example_cluster (Some 4) None, inv_now_check = 2000,
      inv_now_record = 2001, inv_scaler = example_scaler\<rparr>"

section \<open>Properties of the PolicyEngine\<close>










text \<open>
  C2: on the code as it stands the scale-up branch is not a value. At the input of the
  first unit test (\<^verbatim>\<open>test_01_scale_up_required\<close>: 5 replicas, one sample 55.0, cost 5.0
  per replica, at most 10 replicas), where the test and the claim expect 10, the model
  yields the syntax error of line 93.
\<close>

theorem cost_scale_up_syntax_error:
  "calculate_desired_replicas 5 [55] test_policy_config test_scaler_config = Inl SyntaxError"
  by (simp add: calculate_desired_replicas_def cost_aware_scaling_def current_metric_def
      dict_get_def test_policy_config_def test_scaler_config_def)

text \<open>
  With the colon restored, the scale-up branch computes the ceiling of the quotient, capped
  by \<open>maxReplicas\<close>, for every non-zero cost bound, and 10 at the input of the first test.
\<close>

lemma cost_scale_up_with_colon_ceiling:
  assumes "C \<noteq> 0"
  shows "cost_scale_up_with_colon m C hi = Inr (min \<lceil>m / C\<rceil> hi)"
proof (cases "0 \<le> m / C")
  case True
  then have "py_int (m / C) = \<lfloor>m / C\<rfloor>" by (simp add: py_int_def)
  moreover have "(if m / C > real_of_int \<lfloor>m / C\<rfloor> then \<lfloor>m / C\<rfloor> + 1 else \<lfloor>m / C\<rfloor>) = \<lceil>m / C\<rceil>"
    by (smt (verit) ceiling_altdef of_int_floor_le order_antisym_conv)
  ultimately show ?thesis using assms by (simp add: cost_scale_up_with_colon_def Let_def)
next
  case False
  then have "py_int (m / C) = \<lceil>m / C\<rceil>" by (simp add: py_int_def)
  moreover have "\<not> m / C > real_of_int \<lceil>m / C\<rceil>"
    by (simp add: not_less le_of_int_ceiling)
  ultimately show ?thesis using assms by (simp add: cost_scale_up_with_colon_def Let_def)
qed

lemma cost_scale_up_with_colon_test_01: "cost_scale_up_with_colon 55 5 10 = Inr 10"
  by (simp add: cost_scale_up_with_colon_ceiling)





section \<open>Properties of the SafetyManager\<close>

subsection \<open>Durations\<close>

















lemma parse_30s: "parse_duration ''30s'' = Inr 30"
  by (simp add: parse_duration_def py_int_str_def strip_def is_space_def
      is_digit_def dec_value_def digit_value_def units_def dict_get_def)




subsection \<open>Rate limit and cooldown\<close>

text \<open>
  C6: for all integers \<open>current\<close>, \<open>desired\<close> and every \<open>maxScaleRate\<close> \<open>R \<ge> 0\<close>,
  \<^verbatim>\<open>apply_rate_limits\<close> returns \<open>max (current - R) (min (current + R) desired)\<close>; the
  result differs from \<open>current\<close> by at most \<open>R\<close>, and it is \<open>desired\<close> when
  \<open>desired\<close> differs from \<open>current\<close> by at most \<open>R\<close>.
\<close>

theorem apply_rate_limits_clamp:
  assumes "0 \<le> R" and "dict_get (maxScaleRate cfg) 2 = R"
  shows "apply_rate_limits current desired cfg = max (current - R) (min (current + R) desired)
         \<and> \<bar>apply_rate_limits current desired cfg - current\<bar> \<le> R
         \<and> (\<bar>desired - current\<bar> \<le> R \<longrightarrow> apply_rate_limits current desired cfg = desired)"
  using assms by (auto simp: apply_rate_limits_def Let_def)

theorem apply_rate_limits_clamp_witness:
  "(0::int) \<le> 2 \<and> dict_get (maxScaleRate test_safety_config) 2 = 2
   \<and> apply_rate_limits 5 10 test_safety_config = 7
   \<and> apply_rate_limits 10 2 test_safety_config = 8
   \<and> apply_rate_limits 5 6 test_safety_config = 6"
proof -
  have h: "(0::int) \<le> 2" "dict_get (maxScaleRate test_safety_config) 2 = 2"
    by (simp_all add: test_safety_config_def dict_get_def)
  from apply_rate_limits_clamp [OF h, of 5 10] apply_rate_limits_clamp [OF h, of 10 2]
    apply_rate_limits_clamp [OF h, of 5 6] h
  show ?thesis by simp
qed



section \<open>Properties of the reconciler\<close>

lemma reconcile_from_current_ledger:
  "fst (reconcile_from_current cl t1 t2 sm sc dep cur) =
     (if patch_succeeded cl (snd (reconcile_from_current cl t1 t2 sm sc dep cur))
      then record_scale_operation sm (meta_name sc) t2 else sm)"
  by (auto simp: reconcile_from_current_def Let_def patch_succeeded_def
      split: sum.splits option.splits)

lemma reconcile_scaler_ledger:
  "fst (reconcile_scaler cl t1 t2 sm sc) =
     (if patch_succeeded cl (snd (reconcile_scaler cl t1 t2 sm sc))
      then record_scale_operation sm (meta_name sc) t2 else sm)"
  using reconcile_from_current_ledger
  by (auto simp: reconcile_scaler_def Let_def patch_succeeded_def split: sum.splits option.splits)

lemma patch_succeeded_issued: "patch_succeeded cl calls \<Longrightarrow> patch_issued calls"
proof -
  have "patch_accepted cl c \<Longrightarrow> is_patch c" for c by (cases c) auto
  then show "patch_succeeded cl calls \<Longrightarrow> patch_issued calls"
    by (auto simp: patch_succeeded_def patch_issued_def list_ex_iff)
qed


lemma reconcile_success_inv:
  assumes "patch_succeeded cl (snd (reconcile_scaler cl t1 t2 sm sc))"
  shows "\<exists>d. attempted_direction cl sc = Some d
            \<and> can_scale sm t1 (meta_name sc) (safety (spec sc)) d = Inr True"
  using assms
  by (auto simp: reconcile_scaler_def reconcile_from_current_def attempted_direction_def Let_def
      patch_succeeded_def split: sum.splits option.splits if_splits)

lemma safety_get_direction:
  "safety_get cfg (cooldown_key d) = (case d of Up \<Rightarrow> scaleUpCooldown cfg | Down \<Rightarrow> scaleDownCooldown cfg)"
  by (cases d) (simp_all add: safety_get_def cooldown_key_def capitalize_def)

lemma can_scale_parsed:
  assumes "parse_duration (dict_get (case d of Up \<Rightarrow> scaleUpCooldown cfg
                                       | Down \<Rightarrow> scaleDownCooldown cfg) ''5m'') = Inr cd"
  shows "can_scale sm now key cfg d
           = Inr (real_of_int cd \<le> now - dict_get (last_scale_operations sm key) 0)"
  using assms by (auto simp: can_scale_def safety_get_direction Let_def)

lemma can_scale_True_elapsed:
  assumes "can_scale sm now key (safety (spec sc)) d = Inr True"
  shows "\<exists>cd. cooldown_of sc d = Inr cd
              \<and> real_of_int cd \<le> now - dict_get (last_scale_operations sm key) 0"
  using assms
  by (auto simp: can_scale_def cooldown_of_def safety_get_direction Let_def
      split: sum.splits if_splits)

lemma blocked_after_record:
  assumes "parse_duration (dict_get (case d of Up \<Rightarrow> scaleUpCooldown cfg
                                       | Down \<Rightarrow> scaleDownCooldown cfg) ''5m'') = Inr cd"
    and "t' - t < real_of_int cd"
  shows "can_scale (record_scale_operation sm key t) t' key cfg d = Inr False"
  using assms by (simp add: can_scale_parsed record_scale_operation_def dict_get_def)

lemma ledger_floor_step:
  assumes "last_scale_operations sm n = Some t" and "T \<le> t" and "T \<le> inv_now_record k"
  shows "\<exists>t'. last_scale_operations (fst (reconcile_invocation sm k)) n = Some t' \<and> T \<le> t'"
  using assms
  by (auto simp: reconcile_invocation_def reconcile_scaler_ledger record_scale_operation_def)

lemma ledger_floor_run:
  assumes "last_scale_operations sm n = Some t" and "T \<le> t"
    and "\<forall>k\<in>set mid. T \<le> inv_now_record k"
  shows "\<exists>t'. last_scale_operations (run_invocations sm mid) n = Some t' \<and> T \<le> t'"
  using assms
proof (induction mid arbitrary: sm t)
  case Nil
  then show ?case by simp
next
  case (Cons k mid)
  then obtain t' where "last_scale_operations (fst (reconcile_invocation sm k)) n = Some t'"
    and "T \<le> t'"
    using ledger_floor_step [of sm n t T k] by auto
  then show ?case using Cons.IH [of "fst (reconcile_invocation sm k)" t'] Cons.prems by simp
qed

lemma cooldown_between:
  assumes first: "patch_succeeded (inv_cluster i) (snd (reconcile_invocation sm0 i))"
    and clock: "\<forall>k\<in>set mid. inv_now_record i \<le> inv_now_record k"
    and second: "patch_succeeded (inv_cluster j)
        (snd (reconcile_invocation (run_invocations (fst (reconcile_invocation sm0 i)) mid) j))"
    and same: "meta_name (inv_scaler j) = meta_name (inv_scaler i)"
  shows "\<exists>d cd. attempted_direction (inv_cluster j) (inv_scaler j) = Some d
            \<and> cooldown_of (inv_scaler j) d = Inr cd
            \<and> real_of_int cd \<le> inv_now_check j - inv_now_record i"
proof -
  define sm1 where "sm1 = fst (reconcile_invocation sm0 i)"
  define sm2 where "sm2 = run_invocations sm1 mid"
  define n where "n = meta_name (inv_scaler i)"
  have "sm1 = record_scale_operation sm0 n (inv_now_record i)"
    using first unfolding sm1_def n_def reconcile_invocation_def
    by (simp add: reconcile_scaler_ledger)
  then have "last_scale_operations sm1 n = Some (inv_now_record i)"
    by (simp add: record_scale_operation_def)
  then obtain t where t: "last_scale_operations sm2 n = Some t" "inv_now_record i \<le> t"
    using ledger_floor_run [of sm1 n "inv_now_record i" "inv_now_record i" mid] clock
    unfolding sm2_def by auto
  from second obtain d where d: "attempted_direction (inv_cluster j) (inv_scaler j) = Some d"
    and ok: "can_scale sm2 (inv_now_check j) (meta_name (inv_scaler j))
               (safety (spec (inv_scaler j))) d = Inr True"
    using reconcile_success_inv [of "inv_cluster j" "inv_now_check j" "inv_now_record j" sm2 "inv_scaler j"]
    unfolding sm2_def sm1_def reconcile_invocation_def by auto
  from can_scale_True_elapsed [OF ok] obtain cd where cd: "cooldown_of (inv_scaler j) d = Inr cd"
    and el: "real_of_int cd \<le> inv_now_check j
               - dict_get (last_scale_operations sm2 (meta_name (inv_scaler j))) 0"
    by auto
  have "dict_get (last_scale_operations sm2 (meta_name (inv_scaler j))) 0 = t"
    using t same by (simp add: n_def dict_get_def)
  then have "real_of_int cd \<le> inv_now_check j - inv_now_record i" using el t by linarith
  then show ?thesis using d cd by blast
qed

subsection \<open>Concrete invocations\<close>




lemma example_zero_replicas_calls:
  "snd (reconcile_scaler (example_cluster (Some 0) None) 1000 1001 empty_manager example_scaler)
     = [PatchStatus ''test-scaler'' ''default'' 1 ''ScalingApplied'']"
  by code_simp

text \<open>
  A deployment that runs 20 replicas under a scaler with \<open>maxReplicas = 10\<close>: the policy
  asks for 10 and the rate limit of 2 turns the request into 18.
\<close>

lemma reconcile_request_above_max:
  "snd (reconcile_scaler (example_cluster (Some 20) None) 1000 1001 empty_manager example_scaler)
     = [PatchDeployment ''web'' ''default'' 18,
        PatchStatus ''test-scaler'' ''default'' 18 ''ScalingApplied'']"
  by code_simp

subsection \<open>The cooldown ledger and the patch\<close>



subsection \<open>Cooldown between two mutations\<close>

text \<open>
  C9: let an invocation \<open>i\<close> patch the target successfully, let any invocations follow
  whose recording clock readings are not earlier than the one of \<open>i\<close>, and let a later
  invocation \<open>j\<close> of a scaler of the same name patch successfully as well. Then \<open>j\<close>
  asked to scale in some direction, the cooldown configured for that direction parses, and
  at least that cooldown lies between the recording of \<open>i\<close> and the cooldown check of
  \<open>j\<close>, whatever the direction of \<open>i\<close> was. And after \<^verbatim>\<open>record_scale_operation\<close> at
  time \<open>t\<close>, \<^verbatim>\<open>can_scale\<close> is false for either direction at every time \<open>t'\<close> with
  \<open>t' - t\<close> below the cooldown of that direction.
\<close>

theorem cooldown_between_mutations:
  "(patch_succeeded (inv_cluster i) (snd (reconcile_invocation sm0 i))
     \<and> (\<forall>k\<in>set mid. inv_now_record i \<le> inv_now_record k)
     \<and> patch_succeeded (inv_cluster j)
          (snd (reconcile_invocation (run_invocations (fst (reconcile_invocation sm0 i)) mid) j))
     \<and> meta_name (inv_scaler j) = meta_name (inv_scaler i) \<longrightarrow>
    (\<exists>d cd. attempted_direction (inv_cluster j) (inv_scaler j) = Some d
           \<and> cooldown_of (inv_scaler j) d = Inr cd
           \<and> real_of_int cd \<le> inv_now_check j - inv_now_record i))
   \<and> (cooldown_of sc d' = Inr cd' \<and> t' - t < real_of_int cd' \<longrightarrow>
        can_scale (record_scale_operation sm key t) t' key (safety (spec sc)) d' = Inr False)"
proof -
  have one: "patch_succeeded (inv_cluster i) (snd (reconcile_invocation sm0 i))
     \<and> (\<forall>k\<in>set mid. inv_now_record i \<le> inv_now_record k)
     \<and> patch_succeeded (inv_cluster j)
          (snd (reconcile_invocation (run_invocations (fst (reconcile_invocation sm0 i)) mid) j))
     \<and> meta_name (inv_scaler j) = meta_name (inv_scaler i) \<longrightarrow>
    (\<exists>d cd. attempted_direction (inv_cluster j) (inv_scaler j) = Some d
           \<and> cooldown_of (inv_scaler j) d = Inr cd
           \<and> real_of_int cd \<le> inv_now_check j - inv_now_record i)"
    using cooldown_between [of i sm0 mid j] by blast
  have two: "cooldown_of sc d' = Inr cd' \<and> t' - t < real_of_int cd' \<longrightarrow>
        can_scale (record_scale_operation sm key t) t' key (safety (spec sc)) d' = Inr False"
    using blocked_after_record [where d = d' and cfg = "safety (spec sc)" and cd = cd'
        and t' = t' and t = t and sm = sm and key = key]
    unfolding cooldown_of_def by blast
  show ?thesis using one two by blast
qed

theorem cooldown_between_mutations_witness:
  "patch_succeeded (inv_cluster first_invocation)
     (snd (reconcile_invocation empty_manager first_invocation))
   \<and> inv_now_record first_invocation \<le> inv_now_record blocked_invocation
   \<and> \<not> patch_issued (snd (reconcile_invocation
          (fst (reconcile_invocation empty_manager first_invocation)) blocked_invocation))
   \<and> patch_succeeded (inv_cluster later_invocation)
       (snd (reconcile_invocation
          (run_invocations (fst (reconcile_invocation empty_manager first_invocation))
             [blocked_invocation]) later_invocation))
   \<and> (\<exists>d cd. attempted_direction (inv_cluster later_invocation) (inv_scaler later_invocation)
                = Some d
           \<and> cooldown_of (inv_scaler later_invocation) d = Inr cd
           \<and> real_of_int cd \<le> inv_now_check later_invocation - inv_now_record first_invocation)
   \<and> cooldown_of example_scaler Up = Inr 30
   \<and> can_scale (record_scale_operation empty_manager ''test-scaler'' 100) 120 ''test-scaler''
        (safety (spec example_scaler)) Up = Inr False
   \<and> cooldown_of example_scaler Down = Inr 300
   \<and> can_scale (record_scale_operation empty_manager ''test-scaler'' 100) 120 ''test-scaler''
        (safety (spec example_scaler)) Down = Inr False"
proof -
  have a: "patch_succeeded (inv_cluster first_invocation)
     (snd (reconcile_invocation empty_manager first_invocation))"
    by code_simp
  have b: "inv_now_record first_invocation \<le> inv_now_record blocked_invocation"
    by (simp add: first_invocation_def blocked_invocation_def)
  have b': "\<forall>k\<in>set [blocked_invocation]. inv_now_record first_invocation \<le> inv_now_record k"
    using b by simp
  have blocked: "\<not> patch_issued (snd (reconcile_invocation
          (fst (reconcile_invocation empty_manager first_invocation)) blocked_invocation))"
    by code_simp
  have c: "patch_succeeded (inv_cluster later_invocation)
       (snd (reconcile_invocation
          (run_invocations (fst (reconcile_invocation empty_manager first_invocation))
             [blocked_invocation]) later_invocation))"
    by code_simp
  have same: "meta_name (inv_scaler later_invocation) = meta_name (inv_scaler first_invocation)"
    by (simp add: later_invocation_def first_invocation_def)
  have up: "cooldown_of example_scaler Up = Inr 30"
    by (simp add: cooldown_of_def example_scaler_def example_spec_def test_safety_config_def
        dict_get_def parse_30s)
  have down: "cooldown_of example_scaler Down = Inr 300"
    by code_simp
  have one: "\<exists>d cd. attempted_direction (inv_cluster later_invocation) (inv_scaler later_invocation)
                = Some d
           \<and> cooldown_of (inv_scaler later_invocation) d = Inr cd
           \<and> real_of_int cd \<le> inv_now_check later_invocation - inv_now_record first_invocation"
    using cooldown_between_mutations
      [of first_invocation empty_manager "[blocked_invocation]" later_invocation] a b' c same
    by blast
  have two: "can_scale (record_scale_operation empty_manager ''test-scaler'' 100) 120
               ''test-scaler'' (safety (spec example_scaler)) Up = Inr False"
    using cooldown_between_mutations
      [where sc = example_scaler and d' = Up and cd' = 30 and t' = 120 and t = 100
         and sm = empty_manager and key = "''test-scaler''"] up
    by simp
  have three: "can_scale (record_scale_operation empty_manager ''test-scaler'' 100) 120
               ''test-scaler'' (safety (spec example_scaler)) Down = Inr False"
    using cooldown_between_mutations
      [where sc = example_scaler and d' = Down and cd' = 300 and t' = 120 and t = 100
         and sm = empty_manager and key = "''test-scaler''"] down
    by simp
  show ?thesis using a b blocked c one up two down three by blast
qed

subsection \<open>A deployment with no replicas\<close>

text \<open>
  C10: when the target deployment is read successfully and its \<^verbatim>\<open>spec.replicas\<close> is
  unset or 0, the current replica count of the invocation is 1, and the invocation is the
  rest of the reconciler run with \<open>current_replicas = 1\<close>. The current count is never 0.
\<close>

theorem zero_replicas_reconciled_as_one:
  assumes "targetRef_name (spec sc) = Some target_name" and "target_name \<noteq> []"
    and "read_namespaced_deployment cl target_name (dict_get (meta_namespace sc) ''default'')
           = Inr dep"
    and "spec_replicas dep = None \<or> spec_replicas dep = Some 0"
  shows "current_replicas_of dep = 1
         \<and> current_replicas_of dep \<noteq> 0
         \<and> reconcile_scaler cl t1 t2 sm sc = reconcile_from_current cl t1 t2 sm sc dep 1"
proof -
  have c: "current_replicas_of dep = 1"
    using assms(4) by (auto simp: current_replicas_of_def)
  have "reconcile_scaler cl t1 t2 sm sc
          = reconcile_from_current cl t1 t2 sm sc dep (current_replicas_of dep)"
    using assms(1-3) by (simp add: reconcile_scaler_def Let_def)
  then show ?thesis using c by simp
qed

theorem zero_replicas_reconciled_as_one_witness:
  "targetRef_name (spec example_scaler) = Some ''web''
   \<and> read_namespaced_deployment (example_cluster (Some 0) None) ''web''
        (dict_get (meta_namespace example_scaler) ''default'') = Inr (example_deployment (Some 0))
   \<and> spec_replicas (example_deployment (Some 0)) = Some 0
   \<and> current_replicas_of (example_deployment (Some 0)) = 1
   \<and> reconcile_scaler (example_cluster (Some 0) None) 1000 1001 empty_manager example_scaler
       = reconcile_from_current (example_cluster (Some 0) None) 1000 1001 empty_manager
           example_scaler (example_deployment (Some 0)) 1
   \<and> spec_replicas (example_deployment None) = None
   \<and> current_replicas_of (example_deployment None) = 1
   \<and> reconcile_scaler (example_cluster None None) 1000 1001 empty_manager example_scaler
       = reconcile_from_current (example_cluster None None) 1000 1001 empty_manager
           example_scaler (example_deployment None) 1"
proof -
  have t: "targetRef_name (spec example_scaler) = Some ''web''"
    by (simp add: example_scaler_def example_spec_def)
  have ne: "''web'' \<noteq> []" by simp
  have r0: "read_namespaced_deployment (example_cluster (Some 0) None) ''web''
        (dict_get (meta_namespace example_scaler) ''default'') = Inr (example_deployment (Some 0))"
    by (simp add: example_cluster_def)
  have rn: "read_namespaced_deployment (example_cluster None None) ''web''
        (dict_get (meta_namespace example_scaler) ''default'') = Inr (example_deployment None)"
    by (simp add: example_cluster_def)
  have s0: "spec_replicas (example_deployment (Some 0)) = Some 0"
    and sn: "spec_replicas (example_deployment None) = None"
    by (simp_all add: example_deployment_def)
  from s0 have d0: "spec_replicas (example_deployment (Some 0)) = None
                    \<or> spec_replicas (example_deployment (Some 0)) = Some 0" by simp
  from sn have dn: "spec_replicas (example_deployment None) = None
                    \<or> spec_replicas (example_deployment None) = Some 0" by simp
  note a = zero_replicas_reconciled_as_one [OF t ne r0 d0, of 1000 1001 empty_manager]
  note b = zero_replicas_reconciled_as_one [OF t ne rn dn, of 1000 1001 empty_manager]
  show ?thesis using t r0 s0 sn a b by blast
qed

lemma current_replicas_never_zero: "current_replicas_of dep \<noteq> 0"
  by (simp add: current_replicas_of_def split: option.splits)

end
